theory Spec2Isabelle
  imports Complex_Main "HOL-Library.Log_Nat"
begin

section \<open>The starboard of \<open>cogs/stars.py\<close>\<close>

text \<open>
  The development embeds the star workflow of the \<open>Stars\<close> cog: the two tables
  \<open>starboard_entries\<close> and \<open>starrers\<close>, the per-guild configuration, the message cache,
  the set of mirror messages the bot is about to delete, and the part of Discord the
  workflow talks to (channels and the messages in them). Python's \<open>int\<close> is \<open>int\<close>;
  a raised \<open>StarError\<close> and every other exception is a value of \<open>outcome\<close>, returned
  together with the state reached when it was raised (the connection is leased from
  the pool without a transaction, so earlier statements stay committed).
\<close>

subsection \<open>Data\<close>

datatype emoji = WhiteMediumStar | GlowingStar | DizzySymbol | Sparkles

datatype channel_kind = TextChannel | VoiceChannel | Thread

text \<open>A guild channel; \<open>ch_send_messages\<close> is
  \<open>permissions_for(guild.me).send_messages\<close>.\<close>

record channel =
  ch_id :: int
  ch_guild :: int
  ch_kind :: channel_kind
  ch_nsfw :: bool
  ch_send_messages :: bool

datatype message_type = MsgDefault | MsgReply | MsgOther

text \<open>The text of a message. What the bot posts in the starboard channel is kept
  structured: the emoji, the count when it is printed, the mentioned channel and the
  origin message id of \<open>get_emoji_message\<close>.\<close>

datatype content = Text string | StarLine emoji "int option" int int

record embed =
  emb_description :: content
  emb_timestamp :: int

record message =
  msg_id :: int
  msg_channel :: int
  msg_author :: int
  msg_content :: content
  msg_attachments :: nat
  msg_type :: message_type
  msg_created_at :: int
  msg_embed :: "embed option"

text \<open>A row of table \<open>starboard\<close> (what \<open>StarboardConfig\<close> reads from its record).\<close>

record starboard_row =
  sb_channel_id :: "int option"
  sb_threshold :: int
  sb_locked :: bool
  sb_max_age :: int

text \<open>A row of table \<open>starboard_entries\<close>.\<close>

record entry =
  e_id :: int
  e_message_id :: int
  e_channel_id :: int
  e_guild_id :: int
  e_author_id :: int
  e_bot_message_id :: "int option"

text \<open>
  The state: the three tables (rows of \<open>starrers\<close> are pairs \<open>(author_id, entry_id)\<close>),
  the sequence behind \<open>starboard_entries.id\<close>, the memo of \<open>get_starboard\<close>, the cog's
  \<open>_message_cache\<close> and \<open>_about_to_be_deleted\<close>, and Discord: the channels the bot sees,
  the messages that exist, the next message id Discord hands out and the bot's own
  user id.
\<close>

record state =
  starboard :: "int \<Rightarrow> starboard_row option"
  starboard_cache :: "int \<Rightarrow> starboard_row option option"
  starboard_entries :: "entry list"
  starrers :: "(int \<times> int) list"
  next_entry_id :: int
  message_cache :: "int \<Rightarrow> message option"
  about_to_be_deleted :: "int set"
  channels :: "channel list"
  remote :: "message list"
  next_snowflake :: int
  bot_user :: int

datatype star_error =
    NoStarboard | Locked | NsfwMismatch | NotFound | OriginalChannelNotFound
  | NoPermission | MessageNotFound | SelfStar | NotStarrable | TooOld
  | AlreadyStarred | NotStarred

text \<open>Exceptions that are not \<open>StarError\<close> and leave the workflow uncaught.\<close>

datatype fault = RecursionError | TypeError | HTTPException | DataError

datatype outcome = Returned | Raised star_error | Crashed fault

subsection \<open>Emoji tiers\<close>

definition star_emoji :: "int \<Rightarrow> emoji" where
  "star_emoji stars =
     (if 5 > stars \<and> stars \<ge> 0 then WhiteMediumStar
      else if 10 > stars \<and> stars \<ge> 5 then GlowingStar
      else if 25 > stars \<and> stars \<ge> 10 then DizzySymbol
      else Sparkles)"

text \<open>\<open>get_emoji_message\<close>: the count is printed only when it exceeds one. Of the
  embed the description and the timestamp are kept; its image, attachment, reply and
  author fields and its colour are not part of the modelled message.\<close>

definition get_emoji_message :: "message \<Rightarrow> int \<Rightarrow> content \<times> embed" where
  "get_emoji_message message stars =
     (StarLine (star_emoji stars) (if stars > 1 then Some stars else None)
        (msg_channel message) (msg_id message),
      \<lparr>emb_description = msg_content message, emb_timestamp = msg_created_at message\<rparr>)"

subsection \<open>Configuration\<close>

text \<open>Modelled from the spec: \<open>utils.cache.cache\<close>, the decorator of \<open>get_starboard\<close>, is
  not among the sources; by section 4.1 of the specification \<open>get\<close> returns the cached
  configuration or loads and caches it, and \<open>invalidate\<close> drops the cached entry.\<close>

definition get_starboard :: "int \<Rightarrow> state \<Rightarrow> starboard_row option \<times> state" where
  "get_starboard guild_id s =
     (case starboard_cache s guild_id of
        Some config \<Rightarrow> (config, s)
      | None \<Rightarrow>
          (let row = starboard s guild_id
           in (row, s\<lparr>starboard_cache := (starboard_cache s)(guild_id \<mapsto> row)\<rparr>)))"


definition get_channel :: "state \<Rightarrow> int \<Rightarrow> int \<Rightarrow> channel option" where
  "get_channel s guild_id channel_id =
     find (\<lambda>c. ch_id c = channel_id \<and> ch_guild c = guild_id \<and> ch_kind c \<noteq> Thread) (channels s)"

definition get_channel_or_thread :: "state \<Rightarrow> int \<Rightarrow> int \<Rightarrow> channel option" where
  "get_channel_or_thread s guild_id channel_id =
     find (\<lambda>c. ch_id c = channel_id \<and> ch_guild c = guild_id) (channels s)"

text \<open>The property \<open>StarboardConfig.channel\<close>.\<close>

definition config_channel :: "state \<Rightarrow> int \<Rightarrow> starboard_row \<Rightarrow> channel option" where
  "config_channel s guild_id row =
     (case sb_channel_id row of
        None \<Rightarrow> None
      | Some channel_id \<Rightarrow> get_channel s guild_id channel_id)"

subsection \<open>Discord\<close>

definition fetch_message :: "state \<Rightarrow> channel \<Rightarrow> int \<Rightarrow> message option" where
  "fetch_message s channel message_id =
     find (\<lambda>m. msg_id m = message_id \<and> msg_channel m = ch_id channel) (remote s)"

definition get_message :: "channel \<Rightarrow> int \<Rightarrow> state \<Rightarrow> message option \<times> state" where
  "get_message channel message_id s =
     (case message_cache s message_id of
        Some msg \<Rightarrow> (Some msg, s)
      | None \<Rightarrow>
          (case fetch_message s channel message_id of
             None \<Rightarrow> (None, s)
           | Some msg \<Rightarrow>
               (Some msg, s\<lparr>message_cache := (message_cache s)(message_id \<mapsto> msg)\<rparr>)))"

definition same_message :: "message \<Rightarrow> message \<Rightarrow> bool" where
  "same_message m x = (msg_id x = msg_id m \<and> msg_channel x = msg_channel m)"

definition send :: "int \<Rightarrow> channel \<Rightarrow> content \<Rightarrow> embed \<Rightarrow> state \<Rightarrow> message \<times> state" where
  "send now channel content emb s =
     (let new_msg = \<lparr>msg_id = next_snowflake s, msg_channel = ch_id channel,
                     msg_author = bot_user s, msg_content = content, msg_attachments = 0,
                     msg_type = MsgDefault, msg_created_at = now, msg_embed = Some emb\<rparr>
      in (new_msg, s\<lparr>remote := remote s @ [new_msg], next_snowflake := next_snowflake s + 1\<rparr>))"

text \<open>Editing or deleting a message that no longer exists is answered by Discord
  with 404, which discord.py raises as an \<open>HTTPException\<close>.\<close>

definition edit :: "message \<Rightarrow> content \<Rightarrow> embed \<Rightarrow> state \<Rightarrow> fault option \<times> state" where
  "edit m content emb s =
     (if \<exists>x \<in> set (remote s). same_message m x
      then (None, s\<lparr>remote := map (\<lambda>x. if same_message m x
                                         then x\<lparr>msg_content := content, msg_embed := Some emb\<rparr>
                                         else x) (remote s)\<rparr>)
      else (Some HTTPException, s))"

definition delete :: "message \<Rightarrow> state \<Rightarrow> fault option \<times> state" where
  "delete m s =
     (if \<exists>x \<in> set (remote s). same_message m x
      then (None, s\<lparr>remote := filter (\<lambda>x. \<not> same_message m x) (remote s)\<rparr>)
      else (Some HTTPException, s))"

subsection \<open>The store\<close>

text \<open>Modelled from the spec: the schema is not among the sources. The specification
  gives the two uniqueness constraints, on the origin message id of an entry (also
  required by \<open>ON CONFLICT (message_id)\<close>) and on the pair of a starrer; the rows of
  \<open>starrers\<close> belong to their entry and go with it when the entry is deleted.\<close>

definition count_starrers :: "state \<Rightarrow> int \<Rightarrow> int" where
  "count_starrers s entry_id = int (length (filter (\<lambda>r. snd r = entry_id) (starrers s)))"

definition fetch_by_message_id :: "state \<Rightarrow> int \<Rightarrow> entry option" where
  "fetch_by_message_id s message_id = find (\<lambda>e. e_message_id e = message_id) (starboard_entries s)"

text \<open>The lookup of lines 392 and 545. The message id comes from the caller (the
  command takes any decimal number); asyncpg encodes it as \<open>bigint\<close> and raises
  \<open>DataError\<close> for a number outside the 64-bit range before the store is asked.\<close>

definition int64 :: "int \<Rightarrow> bool" where
  "int64 x = (- (2 ^ 63) \<le> x \<and> x < 2 ^ 63)"

definition fetch_by_bot_message_id :: "state \<Rightarrow> int \<Rightarrow> fault + entry option" where
  "fetch_by_bot_message_id s message_id =
     (if int64 message_id
      then Inr (find (\<lambda>e. e_bot_message_id e = Some message_id) (starboard_entries s))
      else Inl DataError)"

text \<open>The statement of lines 426 to 441: insert the entry unless one has this
  \<open>message_id\<close>, then insert the starrer for the entry's id. \<open>None\<close> is
  \<open>asyncpg.UniqueViolationError\<close>; the failed statement changes nothing.\<close>

definition insert_star :: "state \<Rightarrow> int \<Rightarrow> int \<Rightarrow> int \<Rightarrow> int \<Rightarrow> int \<Rightarrow> (int \<times> state) option" where
  "insert_star s message_id channel_id guild_id author_id starrer_id =
     (let existing = fetch_by_message_id s message_id;
          entry_id = (case existing of Some e \<Rightarrow> e_id e | None \<Rightarrow> next_entry_id s);
          s' = (case existing of
                  Some e \<Rightarrow> s
                | None \<Rightarrow>
                    s\<lparr>starboard_entries := starboard_entries s @
                         [\<lparr>e_id = next_entry_id s, e_message_id = message_id,
                           e_channel_id = channel_id, e_guild_id = guild_id,
                           e_author_id = author_id, e_bot_message_id = None\<rparr>],
                      next_entry_id := next_entry_id s + 1\<rparr>)
      in if (starrer_id, entry_id) \<in> set (starrers s) then None
         else Some (entry_id, s'\<lparr>starrers := starrers s' @ [(starrer_id, entry_id)]\<rparr>))"

definition set_bot_message_id :: "int option \<Rightarrow> int \<Rightarrow> state \<Rightarrow> state" where
  "set_bot_message_id b message_id s =
     s\<lparr>starboard_entries :=
          map (\<lambda>e. if e_message_id e = message_id then e\<lparr>e_bot_message_id := b\<rparr> else e)
            (starboard_entries s)\<rparr>"

definition clear_bot_message_id :: "int \<Rightarrow> state \<Rightarrow> state" where
  "clear_bot_message_id entry_id s =
     s\<lparr>starboard_entries :=
          map (\<lambda>e. if e_id e = entry_id then e\<lparr>e_bot_message_id := None\<rparr> else e)
            (starboard_entries s)\<rparr>"

definition delete_entries :: "(entry \<Rightarrow> bool) \<Rightarrow> state \<Rightarrow> state" where
  "delete_entries P s =
     s\<lparr>starboard_entries := filter (\<lambda>e. \<not> P e) (starboard_entries s),
       starrers := filter (\<lambda>r. \<not> (\<exists>e \<in> set (starboard_entries s). P e \<and> e_id e = snd r))
                     (starrers s)\<rparr>"

text \<open>The statement of lines 559 to 564: delete the starrer rows of this user that
  join an entry with this \<open>message_id\<close>; the first deleted row is returned with the
  entry's \<open>bot_message_id\<close>. Both arguments are encoded as \<open>bigint\<close>, and one outside
  the 64-bit range raises \<open>DataError\<close>.\<close>

definition starrer_matches :: "state \<Rightarrow> int \<Rightarrow> int \<Rightarrow> int \<times> int \<Rightarrow> bool" where
  "starrer_matches s message_id starrer_id r =
     (fst r = starrer_id \<and>
      (\<exists>e \<in> set (starboard_entries s). e_message_id e = message_id \<and> e_id e = snd r))"

definition delete_starrer ::
  "state \<Rightarrow> int \<Rightarrow> int \<Rightarrow> fault + ((int \<times> int option) \<times> state) option" where
  "delete_starrer s message_id starrer_id =
     (if \<not> (int64 message_id \<and> int64 starrer_id) then Inl DataError
      else
        Inr (case find (starrer_matches s message_id starrer_id) (starrers s) of
               None \<Rightarrow> None
             | Some r \<Rightarrow>
                 (case find (\<lambda>e. e_message_id e = message_id \<and> e_id e = snd r)
                         (starboard_entries s) of
                    None \<Rightarrow> None
                  | Some e \<Rightarrow>
                      Some ((snd r, e_bot_message_id e),
                            s\<lparr>starrers := filter (\<lambda>r. \<not> starrer_matches s message_id starrer_id r)
                                            (starrers s)\<rparr>))))"

subsection \<open>Starring\<close>

definition empty_message :: "message \<Rightarrow> bool" where
  "empty_message msg =
     ((case msg_content msg of Text txt \<Rightarrow> length txt = 0 | StarLine _ _ _ _ \<Rightarrow> False)
      \<and> msg_attachments msg = 0)"

text \<open>Lines 457 to 484 of \<open>_star_message\<close>: count, compare with the threshold, then
  send a new mirror message, edit the one stored, or purge the entry whose stored
  mirror cannot be fetched.\<close>

definition star_mirror ::
  "int \<Rightarrow> starboard_row \<Rightarrow> channel \<Rightarrow> message \<Rightarrow> int \<Rightarrow> int \<Rightarrow> state \<Rightarrow> outcome \<times> state" where
  "star_mirror now row starboard_channel msg message_id entry_id s3 =
     (let count = count_starrers s3 entry_id in
      if count < sb_threshold row then (Returned, s3)
      else
        (let (content, emb) = get_emoji_message msg count in
         case fetch_by_message_id s3 message_id of
           None \<Rightarrow> (Crashed TypeError, s3)
         | Some e \<Rightarrow>
             (case e_bot_message_id e of
                None \<Rightarrow>
                  (let (new_msg, s4) = send now starboard_channel content emb s3
                   in (Returned, set_bot_message_id (Some (msg_id new_msg)) message_id s4))
              | Some bot_message_id \<Rightarrow>
                  (let (new_msg, s4) = get_message starboard_channel bot_message_id s3 in
                   case new_msg of
                     None \<Rightarrow> (Returned, delete_entries (\<lambda>e. e_message_id e = message_id) s4)
                   | Some m \<Rightarrow>
                       (case edit m content emb s4 of
                          (None, s5) \<Rightarrow> (Returned, s5)
                        | (Some f, s5) \<Rightarrow> (Crashed f, s5))))))"

text \<open>The body of \<open>_star_message\<close>, with the recursive call of line 401 as the parameter
  \<open>recurse\<close>; \<open>now\<close> is \<open>discord.utils.utcnow()\<close>.\<close>

definition star_body ::
  "(channel \<Rightarrow> int \<Rightarrow> int \<Rightarrow> state \<Rightarrow> outcome \<times> state) \<Rightarrow>
   int \<Rightarrow> channel \<Rightarrow> int \<Rightarrow> int \<Rightarrow> state \<Rightarrow> outcome \<times> state" where
  "star_body recurse now channel message_id starrer_id s0 =
     (let guild_id = ch_guild channel;
          (config, s1) = get_starboard guild_id s0 in
      case config of
        None \<Rightarrow> (Raised NoStarboard, s1)
      | Some row \<Rightarrow>
      (case config_channel s1 guild_id row of
        None \<Rightarrow> (Raised NoStarboard, s1)
      | Some starboard_channel \<Rightarrow>
          if sb_locked row then (Raised Locked, s1)
          else if ch_nsfw channel \<and> \<not> ch_nsfw starboard_channel then (Raised NsfwMismatch, s1)
          else if ch_id channel = ch_id starboard_channel then
            (case fetch_by_bot_message_id s1 message_id of
               Inl f \<Rightarrow> (Crashed f, s1)
             | Inr None \<Rightarrow> (Raised NotFound, s1)
             | Inr (Some e) \<Rightarrow>
                 (case get_channel_or_thread s1 guild_id (e_channel_id e) of
                    None \<Rightarrow> (Raised OriginalChannelNotFound, s1)
                  | Some ch \<Rightarrow> recurse ch (e_message_id e) starrer_id s1))
          else if \<not> ch_send_messages starboard_channel then (Raised NoPermission, s1)
          else
            (let (found, s2) = get_message channel message_id s1 in
             case found of
               None \<Rightarrow> (Raised MessageNotFound, s2)
             | Some msg \<Rightarrow>
                 if msg_author msg = starrer_id then (Raised SelfStar, s2)
                 else if empty_message msg \<or> msg_type msg \<notin> {MsgDefault, MsgReply}
                   then (Raised NotStarrable, s2)
                 else if msg_created_at msg < now - sb_max_age row then (Raised TooOld, s2)
                 else
                   (case insert_star s2 message_id (ch_id channel) guild_id
                           (msg_author msg) starrer_id of
                      None \<Rightarrow> (Raised AlreadyStarred, s2)
                    | Some (entry_id, s3) \<Rightarrow>
                        star_mirror now row starboard_channel msg message_id entry_id s3))))"

text \<open>\<open>_star_message\<close>. The first argument is the number of nested calls the
  interpreter still allows; the call that exceeds it raises \<open>RecursionError\<close>.\<close>

primrec star_message_inner ::
  "nat \<Rightarrow> int \<Rightarrow> channel \<Rightarrow> int \<Rightarrow> int \<Rightarrow> state \<Rightarrow> outcome \<times> state" where
  "star_message_inner 0 now =
     star_body (\<lambda>ch message_id starrer_id s. (Crashed RecursionError, s)) now"
| "star_message_inner (Suc depth) now = star_body (star_message_inner depth now) now"

subsection \<open>Unstarring\<close>

text \<open>Lines 573 to 603 of \<open>_unstar_message\<close>, after the starrer row is deleted.\<close>

definition unstar_mirror ::
  "starboard_row \<Rightarrow> channel \<Rightarrow> channel \<Rightarrow> int \<Rightarrow> int \<Rightarrow> int option \<Rightarrow> state \<Rightarrow> outcome \<times> state" where
  "unstar_mirror row starboard_channel channel message_id entry_id bot_message_id s2 =
     (let count = count_starrers s2 entry_id;
          s3 = (if count = 0 then delete_entries (\<lambda>e. e_id e = entry_id) s2 else s2) in
      case bot_message_id of
        None \<Rightarrow> (Returned, s3)
      | Some b \<Rightarrow>
          (let (bot_message, s4) = get_message starboard_channel b s3 in
           case bot_message of
             None \<Rightarrow> (Returned, s4)
           | Some bm \<Rightarrow>
               if count < sb_threshold row then
                 (let s5 = s4\<lparr>about_to_be_deleted := insert b (about_to_be_deleted s4)\<rparr>;
                      s6 = (if count \<noteq> 0 then clear_bot_message_id entry_id s5 else s5) in
                  case delete bm s6 of
                    (None, s7) \<Rightarrow> (Returned, s7)
                  | (Some f, s7) \<Rightarrow> (Crashed f, s7))
               else
                 (let (found, s5) = get_message channel message_id s4 in
                  case found of
                    None \<Rightarrow> (Raised MessageNotFound, s5)
                  | Some msg \<Rightarrow>
                      (let (content, emb) = get_emoji_message msg count in
                       case edit bm content emb s5 of
                         (None, s6) \<Rightarrow> (Returned, s6)
                       | (Some f, s6) \<Rightarrow> (Crashed f, s6)))))"

definition unstar_body ::
  "(channel \<Rightarrow> int \<Rightarrow> int \<Rightarrow> state \<Rightarrow> outcome \<times> state) \<Rightarrow>
   channel \<Rightarrow> int \<Rightarrow> int \<Rightarrow> state \<Rightarrow> outcome \<times> state" where
  "unstar_body recurse channel message_id starrer_id s0 =
     (let guild_id = ch_guild channel;
          (config, s1) = get_starboard guild_id s0 in
      case config of
        None \<Rightarrow> (Raised NoStarboard, s1)
      | Some row \<Rightarrow>
      (case config_channel s1 guild_id row of
        None \<Rightarrow> (Raised NoStarboard, s1)
      | Some starboard_channel \<Rightarrow>
          if sb_locked row then (Raised Locked, s1)
          else if ch_id channel = ch_id starboard_channel then
            (case fetch_by_bot_message_id s1 message_id of
               Inl f \<Rightarrow> (Crashed f, s1)
             | Inr None \<Rightarrow> (Raised NotFound, s1)
             | Inr (Some e) \<Rightarrow>
                 (case get_channel_or_thread s1 guild_id (e_channel_id e) of
                    None \<Rightarrow> (Raised OriginalChannelNotFound, s1)
                  | Some ch \<Rightarrow> recurse ch (e_message_id e) starrer_id s1))
          else if \<not> ch_send_messages starboard_channel then (Raised NoPermission, s1)
          else
            (case delete_starrer s1 message_id starrer_id of
               Inl f \<Rightarrow> (Crashed f, s1)
             | Inr None \<Rightarrow> (Raised NotStarred, s1)
             | Inr (Some ((entry_id, bot_message_id), s2)) \<Rightarrow>
                 unstar_mirror row starboard_channel channel message_id entry_id
                   bot_message_id s2)))"

primrec unstar_message_inner ::
  "nat \<Rightarrow> channel \<Rightarrow> int \<Rightarrow> int \<Rightarrow> state \<Rightarrow> outcome \<times> state" where
  "unstar_message_inner 0 =
     unstar_body (\<lambda>ch message_id starrer_id s. (Crashed RecursionError, s))"
| "unstar_message_inner (Suc depth) = unstar_body (unstar_message_inner depth)"

subsection \<open>Changing the threshold\<close>


subsection \<open>A small guild\<close>

text \<open>Guild 1 with an origin channel 10 and the starboard channel 20, threshold 2 and
  a maximal age of 100; message 100 was written by user 7 at time 50. The states below
  are the store before any star, after one star, and after the second star has
  published the mirror message 1000.\<close>

definition ex_origin :: channel where
  "ex_origin = \<lparr>ch_id = 10, ch_guild = 1, ch_kind = TextChannel, ch_nsfw = False,
                 ch_send_messages = True\<rparr>"

definition ex_board :: channel where
  "ex_board = \<lparr>ch_id = 20, ch_guild = 1, ch_kind = TextChannel, ch_nsfw = False,
                ch_send_messages = True\<rparr>"

definition ex_row :: starboard_row where
  "ex_row = \<lparr>sb_channel_id = Some 20, sb_threshold = 2, sb_locked = False, sb_max_age = 100\<rparr>"

definition ex_message :: message where
  "ex_message = \<lparr>msg_id = 100, msg_channel = 10, msg_author = 7, msg_content = Text ''hi'',
                  msg_attachments = 0, msg_type = MsgDefault, msg_created_at = 50,
                  msg_embed = None\<rparr>"

definition ex_mirror :: message where
  "ex_mirror = \<lparr>msg_id = 1000, msg_channel = 20, msg_author = 99,
                 msg_content = StarLine WhiteMediumStar (Some 2) 10 100,
                 msg_attachments = 0, msg_type = MsgDefault, msg_created_at = 60,
                 msg_embed = Some \<lparr>emb_description = Text ''hi'', emb_timestamp = 50\<rparr>\<rparr>"

definition ex_entry :: entry where
  "ex_entry = \<lparr>e_id = 1, e_message_id = 100, e_channel_id = 10, e_guild_id = 1,
                e_author_id = 7, e_bot_message_id = None\<rparr>"

definition ex_empty :: state where
  "ex_empty = \<lparr>starboard = (\<lambda>g. if g = 1 then Some ex_row else None),
                starboard_cache = (\<lambda>g. None),
                starboard_entries = [], starrers = [], next_entry_id = 1,
                message_cache = (\<lambda>m. None), about_to_be_deleted = {},
                channels = [ex_origin, ex_board], remote = [ex_message],
                next_snowflake = 1000, bot_user = 99\<rparr>"

definition ex_starred :: state where
  "ex_starred = ex_empty\<lparr>starboard_entries := [ex_entry], starrers := [(8, 1)],
                          next_entry_id := 2\<rparr>"

definition ex_published :: state where
  "ex_published = ex_empty\<lparr>starboard_entries := [ex_entry\<lparr>e_bot_message_id := Some 1000\<rparr>],
                            starrers := [(8, 1), (9, 1)], next_entry_id := 2,
                            remote := [ex_message, ex_mirror], next_snowflake := 1001\<rparr>"

text \<open>Three stars on the published entry; the mirror shows the count 3.\<close>

definition ex_mirror3 :: message where
  "ex_mirror3 = ex_mirror\<lparr>msg_content := StarLine WhiteMediumStar (Some 3) 10 100\<rparr>"

definition ex_three :: state where
  "ex_three = ex_published\<lparr>starrers := [(8, 1), (9, 1), (11, 1)],
                           remote := [ex_message, ex_mirror3]\<rparr>"

text \<open>The same, after the mirror was deleted in Discord while the bot still holds
  it in its message cache.\<close>

definition ex_cached :: state where
  "ex_cached = ex_three\<lparr>remote := [ex_message],
                        message_cache := (\<lambda>m. if m = 1000 then Some ex_mirror3 else None)\<rparr>"

text \<open>The published entry after a moderator deleted the mirror message while the bot
  was not listening.\<close>

definition ex_stale :: state where
  "ex_stale = ex_published\<lparr>remote := [ex_message]\<rparr>"



text \<open>The same guild with a locked starboard, and with a starboard channel the bot
  may not write to.\<close>

definition ex_locked :: state where
  "ex_locked = ex_empty\<lparr>starboard := (\<lambda>g. if g = 1 then Some (ex_row\<lparr>sb_locked := True\<rparr>) else None)\<rparr>"

definition ex_mute_board :: channel where
  "ex_mute_board = ex_board\<lparr>ch_send_messages := False\<rparr>"

definition ex_mute :: state where
  "ex_mute = ex_published\<lparr>channels := [ex_origin, ex_mute_board]\<rparr>"

subsection \<open>Sequences of calls\<close>






subsection \<open>Count and mirror\<close>












section \<open>Properties of the workflow\<close>

subsection \<open>Frames and unfoldings\<close>

lemma star_message_inner_unfold:
  "star_message_inner depth now =
     star_body (case depth of 0 \<Rightarrow> (\<lambda>ch message_id starrer_id s. (Crashed RecursionError, s))
                | Suc d \<Rightarrow> star_message_inner d now) now"
  by (cases depth) simp_all

lemma unstar_message_inner_unfold:
  "unstar_message_inner depth =
     unstar_body (case depth of 0 \<Rightarrow> (\<lambda>ch message_id starrer_id s. (Crashed RecursionError, s))
                  | Suc d \<Rightarrow> unstar_message_inner d)"
  by (cases depth) simp_all

lemma get_starboard_frame:
  assumes "get_starboard g s = (c, s1)"
  shows "starboard_entries s1 = starboard_entries s" "starrers s1 = starrers s"
    "remote s1 = remote s" "about_to_be_deleted s1 = about_to_be_deleted s"
    "message_cache s1 = message_cache s" "channels s1 = channels s"
    "next_entry_id s1 = next_entry_id s" "next_snowflake s1 = next_snowflake s"
    "starboard s1 = starboard s" "bot_user s1 = bot_user s"
  using assms by (auto simp: get_starboard_def Let_def split: option.splits)

lemma get_message_frame:
  assumes "get_message ch m s = (r, s1)"
  shows "starboard_entries s1 = starboard_entries s" "starrers s1 = starrers s"
    "remote s1 = remote s" "about_to_be_deleted s1 = about_to_be_deleted s"
    "starboard_cache s1 = starboard_cache s" "channels s1 = channels s"
    "next_entry_id s1 = next_entry_id s" "next_snowflake s1 = next_snowflake s"
    "starboard s1 = starboard s" "bot_user s1 = bot_user s"
  using assms by (auto simp: get_message_def split: option.splits)

lemma get_starboard_snd_frame:
  "starboard_entries (snd (get_starboard g s)) = starboard_entries s"
  "starrers (snd (get_starboard g s)) = starrers s"
  "remote (snd (get_starboard g s)) = remote s"
  "about_to_be_deleted (snd (get_starboard g s)) = about_to_be_deleted s"
  "message_cache (snd (get_starboard g s)) = message_cache s"
  "channels (snd (get_starboard g s)) = channels s"
  "next_entry_id (snd (get_starboard g s)) = next_entry_id s"
  "next_snowflake (snd (get_starboard g s)) = next_snowflake s"
  "starboard (snd (get_starboard g s)) = starboard s"
  "bot_user (snd (get_starboard g s)) = bot_user s"
  by (simp_all add: get_starboard_def Let_def split: option.splits)

lemma get_message_snd_frame:
  "starboard_entries (snd (get_message ch m s)) = starboard_entries s"
  "starrers (snd (get_message ch m s)) = starrers s"
  "remote (snd (get_message ch m s)) = remote s"
  "about_to_be_deleted (snd (get_message ch m s)) = about_to_be_deleted s"
  "starboard_cache (snd (get_message ch m s)) = starboard_cache s"
  "channels (snd (get_message ch m s)) = channels s"
  "next_entry_id (snd (get_message ch m s)) = next_entry_id s"
  "next_snowflake (snd (get_message ch m s)) = next_snowflake s"
  "starboard (snd (get_message ch m s)) = starboard s"
  "bot_user (snd (get_message ch m s)) = bot_user s"
  by (simp_all add: get_message_def split: option.splits)



lemma config_channel_cong:
  "channels s1 = channels s \<Longrightarrow> config_channel s1 g row = config_channel s g row"
  by (simp add: config_channel_def get_channel_def split: option.splits)






lemma get_message_cong:
  "message_cache s1 = message_cache s \<Longrightarrow> remote s1 = remote s \<Longrightarrow>
   fst (get_message ch m s1) = fst (get_message ch m s)"
  by (simp add: get_message_def fetch_message_def split: option.splits)

lemma get_message_snd:
  "snd (get_message ch m s) =
     (case fst (get_message ch m s) of
        None \<Rightarrow> s
      | Some msg \<Rightarrow> if message_cache s m = None
                    then s\<lparr>message_cache := (message_cache s)(m \<mapsto> msg)\<rparr> else s)"
  by (simp add: get_message_def split: option.splits)

lemma starrer_matches_cong:
  "starboard_entries s1 = starboard_entries s \<Longrightarrow> starrer_matches s1 = starrer_matches s"
  by (simp add: starrer_matches_def fun_eq_iff)

lemma delete_starrer_cong:
  assumes "starboard_entries s1 = starboard_entries s" "starrers s1 = starrers s"
  shows "delete_starrer s1 m u =
           (case delete_starrer s m u of
              Inl f \<Rightarrow> Inl f
            | Inr None \<Rightarrow> Inr None
            | Inr (Some (x, s2)) \<Rightarrow>
                Inr (Some (x, s1\<lparr>starrers := filter (\<lambda>r. \<not> starrer_matches s m u r) (starrers s)\<rparr>)))"
  using assms starrer_matches_cong[OF assms(1)]
  by (simp add: delete_starrer_def split: option.splits)

lemma delete_starrer_state:
  "delete_starrer s m u = Inr (Some (x, s2)) \<Longrightarrow>
   s2 = s\<lparr>starrers := filter (\<lambda>r. \<not> starrer_matches s m u r) (starrers s)\<rparr>"
  by (auto simp: delete_starrer_def split: option.splits if_splits)

lemma delete_entries_zero:
  "count_starrers s entry_id = 0 \<Longrightarrow>
   delete_entries (\<lambda>e. e_id e = entry_id) s
     = s\<lparr>starboard_entries := filter (\<lambda>e. e_id e \<noteq> entry_id) (starboard_entries s)\<rparr>"
proof -
  assume "count_starrers s entry_id = 0"
  then have "\<forall>r \<in> set (starrers s). snd r \<noteq> entry_id"
    by (auto simp: count_starrers_def filter_empty_conv)
  then have "filter (\<lambda>r. \<not> (\<exists>e \<in> set (starboard_entries s). e_id e = entry_id \<and> e_id e = snd r)) (starrers s)
           = starrers s"
    by (auto simp: filter_id_conv)
  then show ?thesis by (simp add: delete_entries_def)
qed


lemma get_message_Some:
  "fst (get_message ch m s) = Some msg \<Longrightarrow>
   get_message ch m s =
     (Some msg, if message_cache s m = None
                then s\<lparr>message_cache := (message_cache s)(m \<mapsto> msg)\<rparr> else s)"
  by (auto simp: get_message_def split: option.splits)

lemma get_message_None:
  "fst (get_message ch m s) = None \<Longrightarrow> get_message ch m s = (None, s)"
  by (auto simp: get_message_def split: option.splits)

lemma delete_remote:
  "remote (snd (delete m s)) = filter (\<lambda>x. \<not> same_message m x) (remote s)"
  by (auto simp: delete_def filter_id_conv)



lemma unstar_mirror_starrers:
  "starrers (snd (unstar_mirror row board channel message_id entry_id mirror s2)) = starrers s2"
proof (cases "count_starrers s2 entry_id = 0")
  case True
  show ?thesis
    using True delete_entries_zero[OF True]
    by (auto simp: unstar_mirror_def Let_def get_message_def delete_def edit_def
          split: option.splits prod.splits)
next
  case False
  then show ?thesis
    by (auto simp: unstar_mirror_def Let_def get_message_def delete_def edit_def
          clear_bot_message_id_def split: option.splits prod.splits)
qed

lemma unstar_mirror_zero:
  assumes "count_starrers s2 entry_id = 0"
  shows "starboard_entries (snd (unstar_mirror row board channel message_id entry_id mirror s2))
       = filter (\<lambda>x. e_id x \<noteq> entry_id) (starboard_entries s2)"
  using assms delete_entries_zero[OF assms]
  by (auto simp: unstar_mirror_def Let_def get_message_def delete_def edit_def
        split: option.splits prod.splits)


lemma delete_entries_frame:
  "message_cache (delete_entries P s) = message_cache s"
  "remote (delete_entries P s) = remote s"
  "about_to_be_deleted (delete_entries P s) = about_to_be_deleted s"
  by (simp_all add: delete_entries_def)

lemma get_message_snd_cong:
  "message_cache s1 = message_cache s \<Longrightarrow> remote s1 = remote s \<Longrightarrow>
   message_cache (snd (get_message ch m s1)) = message_cache (snd (get_message ch m s))"
  by (simp add: get_message_def fetch_message_def split: option.splits)

lemma unstar_mirror_below:
  assumes bm: "fst (get_message board b s2) = Some bm"
    and lt: "count_starrers s2 entry_id < sb_threshold row"
  shows "about_to_be_deleted (snd (unstar_mirror row board channel message_id entry_id (Some b) s2))
           = insert b (about_to_be_deleted s2)
       \<and> remote (snd (unstar_mirror row board channel message_id entry_id (Some b) s2))
           = filter (\<lambda>x. \<not> same_message bm x) (remote s2)
       \<and> (count_starrers s2 entry_id \<noteq> 0 \<longrightarrow>
            starboard_entries (snd (unstar_mirror row board channel message_id entry_id (Some b) s2))
              = map (\<lambda>x. if e_id x = entry_id then x\<lparr>e_bot_message_id := None\<rparr> else x)
                  (starboard_entries s2))
       \<and> fst (unstar_mirror row board channel message_id entry_id (Some b) s2)
           = (if \<exists>x \<in> set (remote s2). same_message bm x then Returned
              else Crashed HTTPException)"
proof -
  define s3 where "s3 = (if count_starrers s2 entry_id = 0
                         then delete_entries (\<lambda>e. e_id e = entry_id) s2 else s2)"
  have "fst (get_message board b s3) = Some bm"
    using bm get_message_cong[of s3 s2 board b] by (simp add: s3_def delete_entries_frame)
  note gm = get_message_Some[OF this]
  define s4 where "s4 = (if message_cache s3 b = None
                         then s3\<lparr>message_cache := (message_cache s3)(b \<mapsto> bm)\<rparr> else s3)"
  define s6 where "s6 = (if count_starrers s2 entry_id \<noteq> 0
                         then clear_bot_message_id entry_id
                                (s4\<lparr>about_to_be_deleted := insert b (about_to_be_deleted s4)\<rparr>)
                         else s4\<lparr>about_to_be_deleted := insert b (about_to_be_deleted s4)\<rparr>)"
  have res: "unstar_mirror row board channel message_id entry_id (Some b) s2
           = (case delete bm s6 of (None, s7) \<Rightarrow> (Returned, s7) | (Some f, s7) \<Rightarrow> (Crashed f, s7))"
    using lt gm
    by (simp add: unstar_mirror_def Let_def s3_def[symmetric] s4_def[symmetric] s6_def
          split: prod.splits option.splits)
  have 1: "about_to_be_deleted s6 = insert b (about_to_be_deleted s2)"
    by (simp add: s6_def s4_def s3_def clear_bot_message_id_def delete_entries_frame)
  have 2: "remote s6 = remote s2"
    by (simp add: s6_def s4_def s3_def clear_bot_message_id_def delete_entries_frame)
  have 3: "starboard_entries s6
             = map (\<lambda>x. if e_id x = entry_id then x\<lparr>e_bot_message_id := None\<rparr> else x)
                 (starboard_entries s2)"
    if "count_starrers s2 entry_id \<noteq> 0"
    using that by (simp add: s6_def s4_def s3_def clear_bot_message_id_def)
  show ?thesis
    unfolding res using 1 2 3 by (auto simp add: delete_def filter_id_conv)
qed

lemma unstar_mirror_edit:
  assumes bm: "fst (get_message board b s2) = Some bm"
    and ge: "\<not> count_starrers s2 entry_id < sb_threshold row"
    and msg: "fst (get_message channel message_id (snd (get_message board b s2))) = Some msg"
  shows "fst (unstar_mirror row board channel message_id entry_id (Some b) s2)
           = (if \<exists>x \<in> set (remote s2). same_message bm x then Returned
              else Crashed HTTPException)
       \<and> remote (snd (unstar_mirror row board channel message_id entry_id (Some b) s2))
           = (if \<exists>x \<in> set (remote s2). same_message bm x
              then map (\<lambda>x. if same_message bm x
                       then x\<lparr>msg_content := fst (get_emoji_message msg (count_starrers s2 entry_id)),
                              msg_embed := Some (snd (get_emoji_message msg (count_starrers s2 entry_id)))\<rparr>
                       else x) (remote s2)
              else remote s2)
       \<and> about_to_be_deleted (snd (unstar_mirror row board channel message_id entry_id (Some b) s2))
           = about_to_be_deleted s2
       \<and> (count_starrers s2 entry_id \<noteq> 0 \<longrightarrow>
            starboard_entries (snd (unstar_mirror row board channel message_id entry_id (Some b) s2))
              = starboard_entries s2)"
proof -
  define s3 where "s3 = (if count_starrers s2 entry_id = 0
                         then delete_entries (\<lambda>e. e_id e = entry_id) s2 else s2)"
  have f3: "message_cache s3 = message_cache s2" "remote s3 = remote s2"
    by (simp_all add: s3_def delete_entries_frame)
  have "fst (get_message board b s3) = Some bm"
    using bm get_message_cong[OF f3, of board b] by simp
  note gm = get_message_Some[OF this]
  define s4 where "s4 = (if message_cache s3 b = None
                         then s3\<lparr>message_cache := (message_cache s3)(b \<mapsto> bm)\<rparr> else s3)"
  have s4: "s4 = snd (get_message board b s3)" using gm by (simp add: s4_def)
  have f4: "message_cache s4 = message_cache (snd (get_message board b s2))"
    "remote s4 = remote (snd (get_message board b s2))"
    unfolding s4 using get_message_snd_cong[OF f3, of board b] f3
    by (simp_all add: get_message_snd_frame)
  have "fst (get_message channel message_id s4) = Some msg"
    using msg get_message_cong[OF f4, of channel message_id] by simp
  note gm2 = get_message_Some[OF this]
  define s5 where "s5 = (if message_cache s4 message_id = None
                         then s4\<lparr>message_cache := (message_cache s4)(message_id \<mapsto> msg)\<rparr> else s4)"
  have r5: "remote s5 = remote s2"
    by (simp add: s5_def s4_def s3_def delete_entries_frame)
  have res: "unstar_mirror row board channel message_id entry_id (Some b) s2
           = (case edit bm (fst (get_emoji_message msg (count_starrers s2 entry_id)))
                     (snd (get_emoji_message msg (count_starrers s2 entry_id))) s5 of
                (None, s6) \<Rightarrow> (Returned, s6) | (Some f, s6) \<Rightarrow> (Crashed f, s6))"
    using ge gm gm2
    by (simp add: unstar_mirror_def Let_def s3_def[symmetric] s4_def[symmetric] s5_def[symmetric]
          split: prod.splits)
  have 1: "about_to_be_deleted s5 = about_to_be_deleted s2"
    by (simp add: s5_def s4_def s3_def delete_entries_frame)
  have 3: "starboard_entries s5 = starboard_entries s2" if "count_starrers s2 entry_id \<noteq> 0"
    using that by (simp add: s5_def s4_def s3_def)
  show ?thesis
    unfolding res using r5 1 3 by (simp add: edit_def)
qed

text \<open>A call outside the starboard channel that passes the checks on the
  configuration, the lock, the NSFW flags and the permission, and whose message is
  found, continues with the checks on the message and the insert.\<close>

lemma star_message_checked:
  assumes cfg: "fst (get_starboard (ch_guild channel) s) = Some row"
    and brd: "config_channel s (ch_guild channel) row = Some board"
    and unl: "\<not> sb_locked row"
    and nsfw: "\<not> (ch_nsfw channel \<and> \<not> ch_nsfw board)"
    and ne: "ch_id channel \<noteq> ch_id board"
    and perm: "ch_send_messages board"
    and msg: "fst (get_message channel message_id s) = Some msg"
  shows "star_message_inner depth now channel message_id starrer_id s =
     (let s2 = snd (get_message channel message_id (snd (get_starboard (ch_guild channel) s))) in
      if msg_author msg = starrer_id then (Raised SelfStar, s2)
      else if empty_message msg \<or> msg_type msg \<notin> {MsgDefault, MsgReply}
        then (Raised NotStarrable, s2)
      else if msg_created_at msg < now - sb_max_age row then (Raised TooOld, s2)
      else
        (case insert_star s2 message_id (ch_id channel) (ch_guild channel)
                (msg_author msg) starrer_id of
           None \<Rightarrow> (Raised AlreadyStarred, s2)
         | Some (entry_id, s3) \<Rightarrow> star_mirror now row board msg message_id entry_id s3))"
proof -
  obtain s1 where g: "get_starboard (ch_guild channel) s = (Some row, s1)"
    using cfg by (cases "get_starboard (ch_guild channel) s") auto
  note fr = get_starboard_frame[OF g]
  have b1: "config_channel s1 (ch_guild channel) row = Some board"
    using brd fr(6) by (simp add: config_channel_cong[of s1 s])
  have "fst (get_message channel message_id s1) = Some msg"
    using msg get_message_cong[of s1 s channel message_id] fr by simp
  then obtain s2 where m: "get_message channel message_id s1 = (Some msg, s2)"
    by (cases "get_message channel message_id s1") auto
  show ?thesis
    using g b1 unl nsfw ne perm m
    by (subst star_message_inner_unfold) (auto simp add: star_body_def Let_def)
qed

lemma unstar_message_checked:
  assumes cfg: "fst (get_starboard (ch_guild channel) s) = Some row"
    and brd: "config_channel s (ch_guild channel) row = Some board"
    and unl: "\<not> sb_locked row"
    and ne: "ch_id channel \<noteq> ch_id board"
  shows "unstar_message_inner depth channel message_id starrer_id s =
     (let s1 = snd (get_starboard (ch_guild channel) s) in
      if \<not> ch_send_messages board then (Raised NoPermission, s1)
      else
        (case delete_starrer s1 message_id starrer_id of
           Inl f \<Rightarrow> (Crashed f, s1)
         | Inr None \<Rightarrow> (Raised NotStarred, s1)
         | Inr (Some ((entry_id, bot_message_id), s2)) \<Rightarrow>
             unstar_mirror row board channel message_id entry_id bot_message_id s2))"
proof -
  obtain s1 where g: "get_starboard (ch_guild channel) s = (Some row, s1)"
    using cfg by (cases "get_starboard (ch_guild channel) s") auto
  note fr = get_starboard_frame[OF g]
  have b1: "config_channel s1 (ch_guild channel) row = Some board"
    using brd fr(6) by (simp add: config_channel_cong[of s1 s])
  show ?thesis
    using g b1 unl ne
    by (subst unstar_message_inner_unfold) (auto simp add: unstar_body_def Let_def)
qed

subsection \<open>Rejections of a star call\<close>

text \<open>
  Claim C3, as amended. Take a star call in a guild whose starboard channel is
  configured. When the starboard is locked the call is rejected with \<open>Locked\<close>, also
  when the starrer is the author. When the starboard is not locked, the NSFW flags
  agree, the call is not made in the starboard channel, the bot may write there, the
  message is found and its author is the starrer, the call is rejected with
  \<open>SelfStar\<close>, whatever the threshold and the stars already given. In both cases the
  tables, the messages in Discord and the set of pending deletions are left as they
  were.
\<close>

theorem self_star_rejected:
  assumes "fst (get_starboard (ch_guild channel) s) = Some row"
    and "config_channel s (ch_guild channel) row = Some board"
  shows "(sb_locked row \<longrightarrow>
            fst (star_message_inner depth now channel message_id starrer_id s) = Raised Locked)
       \<and> (\<not> sb_locked row \<and> \<not> (ch_nsfw channel \<and> \<not> ch_nsfw board)
            \<and> ch_id channel \<noteq> ch_id board \<and> ch_send_messages board
            \<and> fst (get_message channel message_id s) = Some msg
            \<and> msg_author msg = starrer_id \<longrightarrow>
            fst (star_message_inner depth now channel message_id starrer_id s) = Raised SelfStar)
       \<and> (sb_locked row \<or>
             (\<not> (ch_nsfw channel \<and> \<not> ch_nsfw board)
              \<and> ch_id channel \<noteq> ch_id board \<and> ch_send_messages board
              \<and> fst (get_message channel message_id s) = Some msg
              \<and> msg_author msg = starrer_id) \<longrightarrow>
            starboard_entries (snd (star_message_inner depth now channel message_id starrer_id s))
              = starboard_entries s
          \<and> starrers (snd (star_message_inner depth now channel message_id starrer_id s))
              = starrers s
          \<and> remote (snd (star_message_inner depth now channel message_id starrer_id s))
              = remote s
          \<and> about_to_be_deleted (snd (star_message_inner depth now channel message_id starrer_id s))
              = about_to_be_deleted s)"
proof (cases "sb_locked row")
  case True
  obtain s1 where g: "get_starboard (ch_guild channel) s = (Some row, s1)"
    using assms(1) by (cases "get_starboard (ch_guild channel) s") auto
  note fr = get_starboard_frame[OF g]
  have b1: "config_channel s1 (ch_guild channel) row = Some board"
    using assms(2) fr(6) by (simp add: config_channel_cong[of s1 s])
  have "star_message_inner depth now channel message_id starrer_id s = (Raised Locked, s1)"
    using g b1 True by (subst star_message_inner_unfold) (simp add: star_body_def)
  then show ?thesis using True fr by simp
next
  case False
  have "fst (star_message_inner depth now channel message_id starrer_id s) = Raised SelfStar
      \<and> starboard_entries (snd (star_message_inner depth now channel message_id starrer_id s))
          = starboard_entries s
      \<and> starrers (snd (star_message_inner depth now channel message_id starrer_id s))
          = starrers s
      \<and> remote (snd (star_message_inner depth now channel message_id starrer_id s)) = remote s
      \<and> about_to_be_deleted (snd (star_message_inner depth now channel message_id starrer_id s))
          = about_to_be_deleted s"
    if h: "\<not> (ch_nsfw channel \<and> \<not> ch_nsfw board)" "ch_id channel \<noteq> ch_id board"
      "ch_send_messages board" "fst (get_message channel message_id s) = Some msg"
      "msg_author msg = starrer_id"
    using h(5)
    by (simp add: star_message_checked[OF assms(1,2) False h(1-4)] Let_def
          get_message_snd_frame get_starboard_snd_frame)
  then show ?thesis using False by blast
qed

text \<open>Witness for C3 as amended: user 7 stars the own message 100, with the
  starboard open and with the starboard locked.\<close>

theorem self_star_rejected_witness:
  "fst (star_message_inner 0 60 ex_origin 100 7 ex_empty) = Raised SelfStar
   \<and> starboard_entries (snd (star_message_inner 0 60 ex_origin 100 7 ex_empty)) = []
   \<and> fst (star_message_inner 0 60 ex_origin 100 7 ex_locked) = Raised Locked
   \<and> starrers (snd (star_message_inner 0 60 ex_origin 100 7 ex_locked)) = []"
proof -
  have 1: "fst (get_starboard (ch_guild ex_origin) ex_empty) = Some ex_row" by code_simp
  have 2: "config_channel ex_empty (ch_guild ex_origin) ex_row = Some ex_board" by code_simp
  have 3: "\<not> sb_locked ex_row" by code_simp
  have 4: "\<not> (ch_nsfw ex_origin \<and> \<not> ch_nsfw ex_board)" by code_simp
  have 5: "ch_id ex_origin \<noteq> ch_id ex_board" by code_simp
  have 6: "ch_send_messages ex_board" by code_simp
  have 7: "fst (get_message ex_origin 100 ex_empty) = Some ex_message" by code_simp
  have 8: "msg_author ex_message = 7" by code_simp
  have 9: "starboard_entries ex_empty = []" by code_simp
  have l1: "fst (get_starboard (ch_guild ex_origin) ex_locked) = Some (ex_row\<lparr>sb_locked := True\<rparr>)"
    by code_simp
  have l2: "config_channel ex_locked (ch_guild ex_origin) (ex_row\<lparr>sb_locked := True\<rparr>)
              = Some ex_board" by code_simp
  have l3: "sb_locked (ex_row\<lparr>sb_locked := True\<rparr>)" by code_simp
  have l4: "starrers ex_locked = []" by code_simp
  from self_star_rejected[OF 1 2, where message_id = 100 and msg = ex_message
      and starrer_id = 7 and depth = 0 and now = 60] 3 4 5 6 7 8 9
  have a: "fst (star_message_inner 0 60 ex_origin 100 7 ex_empty) = Raised SelfStar
   \<and> starboard_entries (snd (star_message_inner 0 60 ex_origin 100 7 ex_empty)) = []"
    by simp
  from self_star_rejected[OF l1 l2, where message_id = 100 and msg = ex_message
      and starrer_id = 7 and depth = 0 and now = 60] l3 l4
  have b: "fst (star_message_inner 0 60 ex_origin 100 7 ex_locked) = Raised Locked
   \<and> starrers (snd (star_message_inner 0 60 ex_origin 100 7 ex_locked)) = []"
    by simp
  from a b show ?thesis by blast
qed

text \<open>Counterexample to C3 as stated: with the starboard locked, the author's star
  on the own message is answered with \<open>Locked\<close>, not with \<open>SelfStar\<close>.\<close>

theorem self_star_locked_counterexample:
  "msg_author ex_message = 7
   \<and> fst (get_message ex_origin 100 ex_locked) = Some ex_message
   \<and> fst (star_message_inner 0 60 ex_origin 100 7 ex_locked) = Raised Locked
   \<and> fst (star_message_inner 0 60 ex_origin 100 7 ex_locked) \<noteq> Raised SelfStar"
  by code_simp

text \<open>
  Claim C7. A star call that passes the checks on the configuration, the lock, the
  NSFW flags, the redirect and the permission, whose message is found, is not the
  starrer's own and can be starred, fails with \<open>TooOld\<close> when the message was created
  before \<open>now - max_age\<close>, whatever the threshold and the stars already given; the
  tables, the messages in Discord and the pending deletions are unchanged.
\<close>

theorem too_old_rejected:
  assumes "fst (get_starboard (ch_guild channel) s) = Some row"
    and "config_channel s (ch_guild channel) row = Some board"
    and "\<not> sb_locked row"
    and "\<not> (ch_nsfw channel \<and> \<not> ch_nsfw board)"
    and "ch_id channel \<noteq> ch_id board"
    and "ch_send_messages board"
    and "fst (get_message channel message_id s) = Some msg"
    and "msg_author msg \<noteq> starrer_id"
    and "\<not> empty_message msg"
    and "msg_type msg \<in> {MsgDefault, MsgReply}"
    and "msg_created_at msg < now - sb_max_age row"
  shows "fst (star_message_inner depth now channel message_id starrer_id s) = Raised TooOld
       \<and> starboard_entries (snd (star_message_inner depth now channel message_id starrer_id s))
           = starboard_entries s
       \<and> starrers (snd (star_message_inner depth now channel message_id starrer_id s))
           = starrers s
       \<and> remote (snd (star_message_inner depth now channel message_id starrer_id s)) = remote s
       \<and> about_to_be_deleted (snd (star_message_inner depth now channel message_id starrer_id s))
           = about_to_be_deleted s"
  using assms(8-11)
  by (simp add: star_message_checked[OF assms(1-7)] Let_def
        get_message_snd_frame get_starboard_snd_frame)

text \<open>Witness for C7: at time 200 message 100, created at 50, is older than 100; the
  entry already has its mirror, and a new star by user 11 is refused.\<close>

theorem too_old_rejected_witness:
  "fst (star_message_inner 0 200 ex_origin 100 11 ex_published) = Raised TooOld
   \<and> starrers (snd (star_message_inner 0 200 ex_origin 100 11 ex_published)) = [(8, 1), (9, 1)]"
proof -
  have 1: "fst (get_starboard (ch_guild ex_origin) ex_published) = Some ex_row" by code_simp
  have 2: "config_channel ex_published (ch_guild ex_origin) ex_row = Some ex_board" by code_simp
  have 3: "\<not> sb_locked ex_row" by code_simp
  have 4: "\<not> (ch_nsfw ex_origin \<and> \<not> ch_nsfw ex_board)" by code_simp
  have 5: "ch_id ex_origin \<noteq> ch_id ex_board" by code_simp
  have 6: "ch_send_messages ex_board" by code_simp
  have 7: "fst (get_message ex_origin 100 ex_published) = Some ex_message" by code_simp
  have 8: "msg_author ex_message \<noteq> 11" by code_simp
  have 9: "\<not> empty_message ex_message" by code_simp
  have 10: "msg_type ex_message \<in> {MsgDefault, MsgReply}" by code_simp
  have 11: "msg_created_at ex_message < 200 - sb_max_age ex_row" by code_simp
  have 12: "starrers ex_published = [(8, 1), (9, 1)]" by code_simp
  from too_old_rejected[OF 1 2 3 4 5 6 7 8 9 10 11, of 0] 12 show ?thesis by simp
qed

text \<open>
  Claim C2, as amended. When the user's starrer row for the entry of the message is
  in the store, a star call by that user that passes the checks before the insert
  (configuration, lock, NSFW flags, redirect, permission, message found, not the own
  message, starrable, not too old) fails with \<open>AlreadyStarred\<close>: the uniqueness violation
  of the insert is the only way the statement fails here and it is translated. The
  tables, the messages in Discord and the pending deletions are unchanged.
\<close>

theorem already_starred_rejected:
  assumes "fst (get_starboard (ch_guild channel) s) = Some row"
    and "config_channel s (ch_guild channel) row = Some board"
    and "\<not> sb_locked row"
    and "\<not> (ch_nsfw channel \<and> \<not> ch_nsfw board)"
    and "ch_id channel \<noteq> ch_id board"
    and "ch_send_messages board"
    and "fst (get_message channel message_id s) = Some msg"
    and "msg_author msg \<noteq> starrer_id"
    and "\<not> empty_message msg"
    and "msg_type msg \<in> {MsgDefault, MsgReply}"
    and "\<not> msg_created_at msg < now - sb_max_age row"
    and "fetch_by_message_id s message_id = Some e"
    and "(starrer_id, e_id e) \<in> set (starrers s)"
  shows "fst (star_message_inner depth now channel message_id starrer_id s) = Raised AlreadyStarred
       \<and> starboard_entries (snd (star_message_inner depth now channel message_id starrer_id s))
           = starboard_entries s
       \<and> starrers (snd (star_message_inner depth now channel message_id starrer_id s))
           = starrers s
       \<and> remote (snd (star_message_inner depth now channel message_id starrer_id s)) = remote s
       \<and> about_to_be_deleted (snd (star_message_inner depth now channel message_id starrer_id s))
           = about_to_be_deleted s"
proof -
  let ?s2 = "snd (get_message channel message_id (snd (get_starboard (ch_guild channel) s)))"
  have "insert_star ?s2 message_id (ch_id channel) (ch_guild channel) (msg_author msg) starrer_id
          = None"
    using assms(12,13)
    by (simp add: insert_star_def fetch_by_message_id_def
          get_message_snd_frame get_starboard_snd_frame)
  then show ?thesis
    using assms(8-11)
    by (simp add: star_message_checked[OF assms(1-7)] Let_def
          get_message_snd_frame get_starboard_snd_frame)
qed

text \<open>Witness for C2 as amended: user 8 has starred message 100 and stars it again.\<close>

theorem already_starred_rejected_witness:
  "fst (star_message_inner 0 60 ex_origin 100 8 ex_starred) = Raised AlreadyStarred
   \<and> starboard_entries (snd (star_message_inner 0 60 ex_origin 100 8 ex_starred)) = [ex_entry]
   \<and> starrers (snd (star_message_inner 0 60 ex_origin 100 8 ex_starred)) = [(8, 1)]"
proof -
  have 1: "fst (get_starboard (ch_guild ex_origin) ex_starred) = Some ex_row" by code_simp
  have 2: "config_channel ex_starred (ch_guild ex_origin) ex_row = Some ex_board" by code_simp
  have 3: "\<not> sb_locked ex_row" by code_simp
  have 4: "\<not> (ch_nsfw ex_origin \<and> \<not> ch_nsfw ex_board)" by code_simp
  have 5: "ch_id ex_origin \<noteq> ch_id ex_board" by code_simp
  have 6: "ch_send_messages ex_board" by code_simp
  have 7: "fst (get_message ex_origin 100 ex_starred) = Some ex_message" by code_simp
  have 8: "msg_author ex_message \<noteq> 8" by code_simp
  have 9: "\<not> empty_message ex_message" by code_simp
  have 10: "msg_type ex_message \<in> {MsgDefault, MsgReply}" by code_simp
  have 11: "\<not> msg_created_at ex_message < 60 - sb_max_age ex_row" by code_simp
  have 12: "fetch_by_message_id ex_starred 100 = Some ex_entry" by code_simp
  have 13: "(8, e_id ex_entry) \<in> set (starrers ex_starred)" by code_simp
  have 14: "starboard_entries ex_starred = [ex_entry]" "starrers ex_starred = [(8, 1)]"
    by (simp_all add: ex_starred_def)
  from already_starred_rejected[OF 1 2 3 4 5 6 7 8 9 10 11 12 13, of 0] 14
  show ?thesis by simp
qed

text \<open>Counterexample to C2 as stated: user 8 has starred message 100; the second
  star arrives at time 200, when the message is older than the maximal age, and is
  answered with \<open>TooOld\<close>, not with \<open>AlreadyStarred\<close>.\<close>

theorem already_starred_too_old_counterexample:
  "fetch_by_message_id ex_starred 100 = Some ex_entry
   \<and> (8, e_id ex_entry) \<in> set (starrers ex_starred)
   \<and> fst (star_message_inner 0 200 ex_origin 100 8 ex_starred) = Raised TooOld
   \<and> fst (star_message_inner 0 200 ex_origin 100 8 ex_starred) \<noteq> Raised AlreadyStarred"
  by code_simp

subsection \<open>Redirect from the mirror message\<close>




subsection \<open>Unstarring\<close>

text \<open>
  Claim C10. An unstar call that passes the checks on the configuration, the lock and
  the redirect fails with \<open>NoPermission\<close> when the bot may not send messages in the
  starboard channel. The check comes before the starrer row is deleted: the tables,
  the messages in Discord, the message cache and the pending deletions are unchanged.
\<close>

theorem unstar_no_permission:
  assumes "fst (get_starboard (ch_guild channel) s) = Some row"
    and "config_channel s (ch_guild channel) row = Some board"
    and "\<not> sb_locked row"
    and "ch_id channel \<noteq> ch_id board"
    and "\<not> ch_send_messages board"
  shows "fst (unstar_message_inner depth channel message_id starrer_id s) = Raised NoPermission
       \<and> starboard_entries (snd (unstar_message_inner depth channel message_id starrer_id s))
           = starboard_entries s
       \<and> starrers (snd (unstar_message_inner depth channel message_id starrer_id s)) = starrers s
       \<and> remote (snd (unstar_message_inner depth channel message_id starrer_id s)) = remote s
       \<and> message_cache (snd (unstar_message_inner depth channel message_id starrer_id s))
           = message_cache s
       \<and> about_to_be_deleted (snd (unstar_message_inner depth channel message_id starrer_id s))
           = about_to_be_deleted s"
  using assms(5)
  by (simp add: unstar_message_checked[OF assms(1-4)] Let_def get_starboard_snd_frame)

text \<open>Witness for C10: user 9 has starred message 100 and unstars it while the bot
  may not write to the starboard channel.\<close>

theorem unstar_no_permission_witness:
  "fst (unstar_message_inner 0 ex_origin 100 9 ex_mute) = Raised NoPermission
   \<and> starrers (snd (unstar_message_inner 0 ex_origin 100 9 ex_mute)) = [(8, 1), (9, 1)]"
proof -
  have 1: "fst (get_starboard (ch_guild ex_origin) ex_mute) = Some ex_row" by code_simp
  have 2: "config_channel ex_mute (ch_guild ex_origin) ex_row = Some ex_mute_board" by code_simp
  have 3: "\<not> sb_locked ex_row" by code_simp
  have 4: "ch_id ex_origin \<noteq> ch_id ex_mute_board" by code_simp
  have 5: "\<not> ch_send_messages ex_mute_board" by code_simp
  have 6: "starrers ex_mute = [(8, 1), (9, 1)]" by code_simp
  from unstar_no_permission[OF 1 2 3 4 5, of 0 100 9] 6 show ?thesis by simp
qed

text \<open>
  Claim C9. An unstar call that passes the checks and deletes a starrer row, leaving
  a count strictly between zero and the threshold on an entry whose stored mirror
  message cannot be fetched, returns at once: the starrer rows of this user for the
  message are gone and nothing else has changed. The entry keeps the stale mirror id,
  nothing is added to the pending deletions, no message is deleted.
\<close>

theorem unstar_stale_mirror:
  assumes "fst (get_starboard (ch_guild channel) s) = Some row"
    and "config_channel s (ch_guild channel) row = Some board"
    and "\<not> sb_locked row"
    and "ch_id channel \<noteq> ch_id board"
    and "ch_send_messages board"
    and "delete_starrer s message_id starrer_id = Inr (Some ((entry_id, Some b), s2))"
    and "0 < count_starrers s2 entry_id"
    and "count_starrers s2 entry_id < sb_threshold row"
    and "fst (get_message board b s) = None"
  shows "fst (unstar_message_inner depth channel message_id starrer_id s) = Returned
       \<and> starrers (snd (unstar_message_inner depth channel message_id starrer_id s))
           = filter (\<lambda>r. \<not> starrer_matches s message_id starrer_id r) (starrers s)
       \<and> starboard_entries (snd (unstar_message_inner depth channel message_id starrer_id s))
           = starboard_entries s
       \<and> about_to_be_deleted (snd (unstar_message_inner depth channel message_id starrer_id s))
           = about_to_be_deleted s
       \<and> remote (snd (unstar_message_inner depth channel message_id starrer_id s)) = remote s
       \<and> message_cache (snd (unstar_message_inner depth channel message_id starrer_id s))
           = message_cache s"
proof -
  let ?s1 = "snd (get_starboard (ch_guild channel) s)"
  let ?s2 = "?s1\<lparr>starrers := filter (\<lambda>r. \<not> starrer_matches s message_id starrer_id r) (starrers s)\<rparr>"
  have d: "delete_starrer ?s1 message_id starrer_id = Inr (Some ((entry_id, Some b), ?s2))"
    using assms(6) delete_starrer_cong[of ?s1 s message_id starrer_id]
    by (simp add: get_starboard_snd_frame)
  have s2: "s2 = s\<lparr>starrers := filter (\<lambda>r. \<not> starrer_matches s message_id starrer_id r) (starrers s)\<rparr>"
    using delete_starrer_state[OF assms(6)] .
  have c: "count_starrers ?s2 entry_id = count_starrers s2 entry_id"
    by (simp add: s2 count_starrers_def)
  have "fst (get_message board b ?s2) = None"
    using assms(9) get_message_cong[of ?s2 s board b] by (simp add: get_starboard_snd_frame)
  then have m: "get_message board b ?s2 = (None, ?s2)"
    by (rule get_message_None)
  have "unstar_message_inner depth channel message_id starrer_id s = (Returned, ?s2)"
    using assms(5,7,8) d c m
    by (simp add: unstar_message_checked[OF assms(1-4)] Let_def unstar_mirror_def)
  then show ?thesis
    by (simp add: get_starboard_snd_frame)
qed

text \<open>Witness for C9: the mirror 1000 of the published entry was deleted by hand;
  user 9 unstars, one star of two is left, and the entry keeps the stale id.\<close>

theorem unstar_stale_mirror_witness:
  "fst (unstar_message_inner 0 ex_origin 100 9 ex_stale) = Returned
   \<and> starrers (snd (unstar_message_inner 0 ex_origin 100 9 ex_stale)) = [(8, 1)]
   \<and> map e_bot_message_id (starboard_entries (snd (unstar_message_inner 0 ex_origin 100 9 ex_stale)))
       = [Some 1000]
   \<and> about_to_be_deleted (snd (unstar_message_inner 0 ex_origin 100 9 ex_stale)) = {}"
proof -
  let ?s2 = "ex_stale\<lparr>starrers := [(8, 1)]\<rparr>"
  have 1: "fst (get_starboard (ch_guild ex_origin) ex_stale) = Some ex_row" by code_simp
  have 2: "config_channel ex_stale (ch_guild ex_origin) ex_row = Some ex_board" by code_simp
  have 3: "\<not> sb_locked ex_row" by code_simp
  have 4: "ch_id ex_origin \<noteq> ch_id ex_board" by code_simp
  have 5: "ch_send_messages ex_board" by code_simp
  have 6: "delete_starrer ex_stale 100 9
             = Inr (Some ((1, Some 1000),
                 ex_stale\<lparr>starrers := filter (\<lambda>r. \<not> starrer_matches ex_stale 100 9 r)
                                          (starrers ex_stale)\<rparr>))"
    by (simp add: delete_starrer_def starrer_matches_def int64_def ex_stale_def ex_published_def
          ex_empty_def ex_entry_def)
  have 7: "0 < count_starrers (ex_stale\<lparr>starrers := filter (\<lambda>r. \<not> starrer_matches ex_stale 100 9 r)
                                          (starrers ex_stale)\<rparr>) 1"
    by code_simp
  have 8: "count_starrers (ex_stale\<lparr>starrers := filter (\<lambda>r. \<not> starrer_matches ex_stale 100 9 r)
                                          (starrers ex_stale)\<rparr>) 1 < sb_threshold ex_row"
    by code_simp
  have 9: "fst (get_message ex_board 1000 ex_stale) = None" by code_simp
  have 10: "filter (\<lambda>r. \<not> starrer_matches ex_stale 100 9 r) (starrers ex_stale) = [(8, 1)]"
    by code_simp
  have 11: "map e_bot_message_id (starboard_entries ex_stale) = [Some 1000]" by code_simp
  have 12: "about_to_be_deleted ex_stale = {}"
    by (simp add: ex_stale_def ex_published_def ex_empty_def)
  from unstar_stale_mirror[OF 1 2 3 4 5 6 7 8 9, of 0] 10 11 12 show ?thesis by simp
qed

text \<open>
  Claim C5, as amended. Take an unstar call that passes the checks on the
  configuration, the lock, the redirect and the permission to write to the starboard
  channel, with ids in the 64-bit range of the store. If no starrer row of the user
  joins an entry of the message, it fails with \<open>NotStarred\<close> and changes nothing.
  Otherwise the rows are deleted and the count is taken again; a count of zero deletes
  the entry. If the entry had a mirror id whose message can be fetched and the count
  is below the threshold, the id is put among the pending deletions, the entry (when
  it still exists) loses its mirror id, and no message of the mirror's id is left in
  the starboard channel: the call returns when the mirror was still there and ends in
  the platform's \<open>HTTPException\<close> when it was only in the message cache. If the count
  is not below the threshold and the mirror and then the origin message can be
  fetched, the mirror is edited to what \<open>get_emoji_message\<close> renders for the new count
  when it still exists in Discord; when it was only in the message cache the edit ends
  in \<open>HTTPException\<close> and no message is changed.
\<close>

theorem unstar_effects:
  assumes "fst (get_starboard (ch_guild channel) s) = Some row"
    and "config_channel s (ch_guild channel) row = Some board"
    and "\<not> sb_locked row"
    and "ch_id channel \<noteq> ch_id board"
    and "ch_send_messages board"
  shows
    "(delete_starrer s message_id starrer_id = Inr None \<longrightarrow>
        fst (unstar_message_inner depth channel message_id starrer_id s) = Raised NotStarred
      \<and> starrers (snd (unstar_message_inner depth channel message_id starrer_id s)) = starrers s
      \<and> starboard_entries (snd (unstar_message_inner depth channel message_id starrer_id s))
          = starboard_entries s
      \<and> remote (snd (unstar_message_inner depth channel message_id starrer_id s)) = remote s
      \<and> about_to_be_deleted (snd (unstar_message_inner depth channel message_id starrer_id s))
          = about_to_be_deleted s)
   \<and> (delete_starrer s message_id starrer_id = Inr (Some ((entry_id, mirror), s2)) \<longrightarrow>
        starrers (snd (unstar_message_inner depth channel message_id starrer_id s))
          = filter (\<lambda>r. \<not> starrer_matches s message_id starrer_id r) (starrers s)
      \<and> (count_starrers s2 entry_id = 0 \<longrightarrow>
            starboard_entries (snd (unstar_message_inner depth channel message_id starrer_id s))
              = filter (\<lambda>x. e_id x \<noteq> entry_id) (starboard_entries s))
      \<and> (mirror = Some b \<and> fst (get_message board b s) = Some bm
           \<and> count_starrers s2 entry_id < sb_threshold row \<longrightarrow>
            about_to_be_deleted (snd (unstar_message_inner depth channel message_id starrer_id s))
              = insert b (about_to_be_deleted s)
          \<and> (count_starrers s2 entry_id \<noteq> 0 \<longrightarrow>
                starboard_entries (snd (unstar_message_inner depth channel message_id starrer_id s))
                  = map (\<lambda>x. if e_id x = entry_id then x\<lparr>e_bot_message_id := None\<rparr> else x)
                      (starboard_entries s))
          \<and> remote (snd (unstar_message_inner depth channel message_id starrer_id s))
              = filter (\<lambda>x. \<not> same_message bm x) (remote s)
          \<and> fst (unstar_message_inner depth channel message_id starrer_id s)
              = (if \<exists>x \<in> set (remote s). same_message bm x then Returned
                 else Crashed HTTPException))
      \<and> (mirror = Some b \<and> fst (get_message board b s) = Some bm
           \<and> \<not> count_starrers s2 entry_id < sb_threshold row
           \<and> fst (get_message channel message_id (snd (get_message board b s))) = Some msg \<longrightarrow>
            fst (unstar_message_inner depth channel message_id starrer_id s)
              = (if \<exists>x \<in> set (remote s). same_message bm x then Returned
                 else Crashed HTTPException)
          \<and> remote (snd (unstar_message_inner depth channel message_id starrer_id s))
              = (if \<exists>x \<in> set (remote s). same_message bm x
                 then map (\<lambda>x. if same_message bm x
                          then x\<lparr>msg_content := fst (get_emoji_message msg (count_starrers s2 entry_id)),
                                 msg_embed := Some (snd (get_emoji_message msg (count_starrers s2 entry_id)))\<rparr>
                          else x) (remote s)
                 else remote s)
          \<and> about_to_be_deleted (snd (unstar_message_inner depth channel message_id starrer_id s))
              = about_to_be_deleted s
          \<and> (count_starrers s2 entry_id \<noteq> 0 \<longrightarrow>
                starboard_entries (snd (unstar_message_inner depth channel message_id starrer_id s))
                  = starboard_entries s)))"
proof -
  let ?s1 = "snd (get_starboard (ch_guild channel) s)"
  let ?u = "unstar_message_inner depth channel message_id starrer_id s"
  note chk = unstar_message_checked[OF assms(1-4), of depth message_id starrer_id]
  have none: "fst ?u = Raised NotStarred \<and> starrers (snd ?u) = starrers s
      \<and> starboard_entries (snd ?u) = starboard_entries s
      \<and> remote (snd ?u) = remote s \<and> about_to_be_deleted (snd ?u) = about_to_be_deleted s"
    if "delete_starrer s message_id starrer_id = Inr None"
  proof -
    have "delete_starrer ?s1 message_id starrer_id = Inr None"
      using that delete_starrer_cong[of ?s1 s message_id starrer_id]
      by (simp add: get_starboard_snd_frame)
    then show ?thesis
      using assms(5) by (simp add: chk Let_def get_starboard_snd_frame)
  qed
  have some: "starrers (snd ?u) = filter (\<lambda>r. \<not> starrer_matches s message_id starrer_id r) (starrers s)
      \<and> (count_starrers s2 entry_id = 0 \<longrightarrow>
            starboard_entries (snd ?u) = filter (\<lambda>x. e_id x \<noteq> entry_id) (starboard_entries s))
      \<and> (mirror = Some b \<and> fst (get_message board b s) = Some bm
           \<and> count_starrers s2 entry_id < sb_threshold row \<longrightarrow>
            about_to_be_deleted (snd ?u) = insert b (about_to_be_deleted s)
          \<and> (count_starrers s2 entry_id \<noteq> 0 \<longrightarrow>
                starboard_entries (snd ?u)
                  = map (\<lambda>x. if e_id x = entry_id then x\<lparr>e_bot_message_id := None\<rparr> else x)
                      (starboard_entries s))
          \<and> remote (snd ?u) = filter (\<lambda>x. \<not> same_message bm x) (remote s)
          \<and> fst ?u = (if \<exists>x \<in> set (remote s). same_message bm x then Returned
                       else Crashed HTTPException))
      \<and> (mirror = Some b \<and> fst (get_message board b s) = Some bm
           \<and> \<not> count_starrers s2 entry_id < sb_threshold row
           \<and> fst (get_message channel message_id (snd (get_message board b s))) = Some msg \<longrightarrow>
            fst ?u = (if \<exists>x \<in> set (remote s). same_message bm x then Returned
                      else Crashed HTTPException)
          \<and> remote (snd ?u)
              = (if \<exists>x \<in> set (remote s). same_message bm x
                 then map (\<lambda>x. if same_message bm x
                          then x\<lparr>msg_content := fst (get_emoji_message msg (count_starrers s2 entry_id)),
                                 msg_embed := Some (snd (get_emoji_message msg (count_starrers s2 entry_id)))\<rparr>
                          else x) (remote s)
                 else remote s)
          \<and> about_to_be_deleted (snd ?u) = about_to_be_deleted s
          \<and> (count_starrers s2 entry_id \<noteq> 0 \<longrightarrow> starboard_entries (snd ?u) = starboard_entries s))"
    if del: "delete_starrer s message_id starrer_id = Inr (Some ((entry_id, mirror), s2))"
  proof -
    let ?s2 = "?s1\<lparr>starrers := filter (\<lambda>r. \<not> starrer_matches s message_id starrer_id r) (starrers s)\<rparr>"
    let ?m = "unstar_mirror row board channel message_id entry_id mirror ?s2"
    have d: "delete_starrer ?s1 message_id starrer_id = Inr (Some ((entry_id, mirror), ?s2))"
      using del delete_starrer_cong[of ?s1 s message_id starrer_id]
      by (simp add: get_starboard_snd_frame)
    have u: "?u = ?m"
      using assms(5) d by (simp add: chk Let_def)
    have s2: "s2 = s\<lparr>starrers := filter (\<lambda>r. \<not> starrer_matches s message_id starrer_id r) (starrers s)\<rparr>"
      using delete_starrer_state[OF del] .
    have c: "count_starrers ?s2 entry_id = count_starrers s2 entry_id"
      by (simp add: s2 count_starrers_def)
    have fr: "starrers ?s2 = filter (\<lambda>r. \<not> starrer_matches s message_id starrer_id r) (starrers s)"
      "starboard_entries ?s2 = starboard_entries s" "remote ?s2 = remote s"
      "about_to_be_deleted ?s2 = about_to_be_deleted s" "message_cache ?s2 = message_cache s"
      by (simp_all add: get_starboard_snd_frame)
    have gm: "fst (get_message ch m ?s2) = fst (get_message ch m s)" for ch m
      using get_message_cong[of ?s2 s ch m] fr by simp
    have gm2: "fst (get_message ch m (snd (get_message ch' m' ?s2)))
             = fst (get_message ch m (snd (get_message ch' m' s)))" for ch m ch' m'
      using get_message_cong[of "snd (get_message ch' m' ?s2)" "snd (get_message ch' m' s)" ch m]
        get_message_snd_cong[of ?s2 s ch' m'] fr
      by (simp add: get_message_snd_frame)
    have 1: "starrers (snd ?m) = filter (\<lambda>r. \<not> starrer_matches s message_id starrer_id r) (starrers s)"
      using unstar_mirror_starrers[of row board channel message_id entry_id mirror ?s2] fr(1)
      by simp
    have 2: "starboard_entries (snd ?m) = filter (\<lambda>x. e_id x \<noteq> entry_id) (starboard_entries s)"
      if "count_starrers s2 entry_id = 0"
      using unstar_mirror_zero[of ?s2 entry_id row board channel message_id mirror] that c fr(2)
      by simp
    have 3: "about_to_be_deleted (snd ?m) = insert b (about_to_be_deleted s)
          \<and> (count_starrers s2 entry_id \<noteq> 0 \<longrightarrow>
                starboard_entries (snd ?m)
                  = map (\<lambda>x. if e_id x = entry_id then x\<lparr>e_bot_message_id := None\<rparr> else x)
                      (starboard_entries s))
          \<and> remote (snd ?m) = filter (\<lambda>x. \<not> same_message bm x) (remote s)
          \<and> fst ?m = (if \<exists>x \<in> set (remote s). same_message bm x then Returned
                       else Crashed HTTPException)"
      if "mirror = Some b" "fst (get_message board b s) = Some bm"
        "count_starrers s2 entry_id < sb_threshold row"
      using unstar_mirror_below[of board b ?s2 bm entry_id row channel message_id] that c fr(2-4) gm
      by simp
    have 4: "fst ?m = (if \<exists>x \<in> set (remote s). same_message bm x then Returned
                      else Crashed HTTPException)
          \<and> remote (snd ?m)
              = (if \<exists>x \<in> set (remote s). same_message bm x
                 then map (\<lambda>x. if same_message bm x
                          then x\<lparr>msg_content := fst (get_emoji_message msg (count_starrers s2 entry_id)),
                                 msg_embed := Some (snd (get_emoji_message msg (count_starrers s2 entry_id)))\<rparr>
                          else x) (remote s)
                 else remote s)
          \<and> about_to_be_deleted (snd ?m) = about_to_be_deleted s
          \<and> (count_starrers s2 entry_id \<noteq> 0 \<longrightarrow> starboard_entries (snd ?m) = starboard_entries s)"
      if "mirror = Some b" "fst (get_message board b s) = Some bm"
        "\<not> count_starrers s2 entry_id < sb_threshold row"
        "fst (get_message channel message_id (snd (get_message board b s))) = Some msg"
      using unstar_mirror_edit[of board b ?s2 bm entry_id row channel message_id msg] that c
        fr(2-4) gm gm2
      by simp
    show ?thesis
      unfolding u using 1 2 3 4 by blast
  qed
  from none some show ?thesis by blast
qed

text \<open>Witness for C5 as amended. User 9 unstars the published message: one star of
  two is left, the mirror id 1000 is pending, the entry has no mirror id and the mirror
  message is gone. With three stars the unstar of user 11 leaves two, and the mirror,
  which showed 3, shows 2. User 12 never starred and gets \<open>NotStarred\<close>.\<close>

theorem unstar_effects_witness:
  "starrers (snd (unstar_message_inner 0 ex_origin 100 9 ex_published)) = [(8, 1)]
   \<and> about_to_be_deleted (snd (unstar_message_inner 0 ex_origin 100 9 ex_published)) = {1000}
   \<and> starboard_entries (snd (unstar_message_inner 0 ex_origin 100 9 ex_published)) = [ex_entry]
   \<and> remote (snd (unstar_message_inner 0 ex_origin 100 9 ex_published)) = [ex_message]
   \<and> fst (unstar_message_inner 0 ex_origin 100 9 ex_published) = Returned
   \<and> remote ex_three = [ex_message, ex_mirror3]
   \<and> fst (unstar_message_inner 0 ex_origin 100 11 ex_three) = Returned
   \<and> remote (snd (unstar_message_inner 0 ex_origin 100 11 ex_three)) = [ex_message, ex_mirror]
   \<and> ex_mirror \<noteq> ex_mirror3
   \<and> fst (unstar_message_inner 0 ex_origin 100 12 ex_published) = Raised NotStarred"
proof -
  have 1: "fst (get_starboard (ch_guild ex_origin) ex_published) = Some ex_row" by code_simp
  have 2: "config_channel ex_published (ch_guild ex_origin) ex_row = Some ex_board" by code_simp
  have 3: "\<not> sb_locked ex_row" by code_simp
  have 4: "ch_id ex_origin \<noteq> ch_id ex_board" by code_simp
  have 5: "ch_send_messages ex_board" by code_simp
  have t1: "fst (get_starboard (ch_guild ex_origin) ex_three) = Some ex_row" by code_simp
  have t2: "config_channel ex_three (ch_guild ex_origin) ex_row = Some ex_board" by code_simp
  have d9: "delete_starrer ex_published 100 9
              = Inr (Some ((1, Some 1000), ex_published\<lparr>starrers := [(8, 1)]\<rparr>))"
    by (simp add: delete_starrer_def starrer_matches_def int64_def ex_published_def ex_empty_def
          ex_entry_def)
  have d11: "delete_starrer ex_three 100 11
              = Inr (Some ((1, Some 1000), ex_three\<lparr>starrers := [(8, 1), (9, 1)]\<rparr>))"
    by (simp add: delete_starrer_def starrer_matches_def int64_def ex_three_def ex_published_def
          ex_empty_def ex_entry_def)
  have d12: "delete_starrer ex_published 100 12 = Inr None"
    by (simp add: delete_starrer_def starrer_matches_def int64_def ex_published_def ex_empty_def
          ex_entry_def)
  have c9: "count_starrers (ex_published\<lparr>starrers := [(8, 1)]\<rparr>) 1 = 1" by code_simp
  have c11: "count_starrers (ex_three\<lparr>starrers := [(8, 1), (9, 1)]\<rparr>) 1 = 2" by code_simp
  have t: "sb_threshold ex_row = 2" by code_simp
  have m: "fst (get_message ex_board 1000 ex_published) = Some ex_mirror"
    "fst (get_message ex_board 1000 ex_three) = Some ex_mirror3"
    "fst (get_message ex_origin 100 (snd (get_message ex_board 1000 ex_three))) = Some ex_message"
    by code_simp+
  have f9: "filter (\<lambda>r. \<not> starrer_matches ex_published 100 9 r) (starrers ex_published) = [(8, 1)]"
    by code_simp
  have e9: "map (\<lambda>x. if e_id x = 1 then x\<lparr>e_bot_message_id := None\<rparr> else x)
              (starboard_entries ex_published) = [ex_entry]"
    by (simp add: ex_published_def ex_empty_def ex_entry_def)
  have r9: "filter (\<lambda>x. \<not> same_message ex_mirror x) (remote ex_published) = [ex_message]"
    by code_simp
  have p9: "about_to_be_deleted ex_published = {}"
    by (simp add: ex_published_def ex_empty_def)
  have x9: "\<exists>x \<in> set (remote ex_published). same_message ex_mirror x" by code_simp
  have x11: "\<exists>x \<in> set (remote ex_three). same_message ex_mirror3 x" by code_simp
  have r11: "map (\<lambda>x. if same_message ex_mirror3 x
                       then x\<lparr>msg_content := fst (get_emoji_message ex_message
                                 (count_starrers (ex_three\<lparr>starrers := [(8, 1), (9, 1)]\<rparr>) 1)),
                              msg_embed := Some (snd (get_emoji_message ex_message
                                 (count_starrers (ex_three\<lparr>starrers := [(8, 1), (9, 1)]\<rparr>) 1)))\<rparr>
                       else x) (remote ex_three)
              = [ex_message, ex_mirror]"
    by code_simp
  have r3: "remote ex_three = [ex_message, ex_mirror3]" "ex_mirror \<noteq> ex_mirror3"
    by code_simp+
  from unstar_effects[OF 1 2 3 4 5, where depth = 0 and message_id = 100 and starrer_id = 9
         and entry_id = 1 and mirror = "Some 1000" and b = 1000 and bm = ex_mirror
         and ?s2.0 = "ex_published\<lparr>starrers := [(8, 1)]\<rparr>"]
       d9 c9 t m(1) f9 e9 r9 p9 x9
  have a: "starrers (snd (unstar_message_inner 0 ex_origin 100 9 ex_published)) = [(8, 1)]
   \<and> about_to_be_deleted (snd (unstar_message_inner 0 ex_origin 100 9 ex_published)) = {1000}
   \<and> starboard_entries (snd (unstar_message_inner 0 ex_origin 100 9 ex_published)) = [ex_entry]
   \<and> remote (snd (unstar_message_inner 0 ex_origin 100 9 ex_published)) = [ex_message]
   \<and> fst (unstar_message_inner 0 ex_origin 100 9 ex_published) = Returned"
    by simp
  from unstar_effects[OF t1 t2 3 4 5, where depth = 0 and message_id = 100 and starrer_id = 11
         and entry_id = 1 and mirror = "Some 1000" and b = 1000 and bm = ex_mirror3
         and msg = ex_message and ?s2.0 = "ex_three\<lparr>starrers := [(8, 1), (9, 1)]\<rparr>"]
       d11 c11 t m(2,3) x11 r11
  have b: "fst (unstar_message_inner 0 ex_origin 100 11 ex_three) = Returned
   \<and> remote (snd (unstar_message_inner 0 ex_origin 100 11 ex_three)) = [ex_message, ex_mirror]"
    by simp
  from unstar_effects[OF 1 2 3 4 5, where depth = 0 and message_id = 100 and starrer_id = 12] d12
  have c: "fst (unstar_message_inner 0 ex_origin 100 12 ex_published) = Raised NotStarred"
    by simp
  from a b c r3 show ?thesis by blast
qed

text \<open>Counterexample to C5 as stated. In \<open>ex_mute\<close> the call of user 9 passes the checks
  on the configuration, the lock and the redirect, and the starrer row is not deleted:
  the call fails with \<open>NoPermission\<close>. In \<open>ex_stale\<close> the entry has the mirror id 1000 and
  the new count 1 is below the threshold 2, and the id is neither recorded as pending
  nor removed from the entry. In \<open>ex_cached\<close> the new count 2 is at the threshold and
  the mirror is not edited: the call ends in \<open>HTTPException\<close>.\<close>

theorem unstar_effects_counterexample:
  "fst (unstar_message_inner 0 ex_origin 100 9 ex_mute) = Raised NoPermission
   \<and> (9, 1) \<in> set (starrers (snd (unstar_message_inner 0 ex_origin 100 9 ex_mute)))
   \<and> map e_bot_message_id (starboard_entries ex_stale) = [Some 1000]
   \<and> fst (unstar_message_inner 0 ex_origin 100 9 ex_stale) = Returned
   \<and> count_starrers (snd (unstar_message_inner 0 ex_origin 100 9 ex_stale)) 1 = 1
   \<and> 1 < sb_threshold ex_row
   \<and> 1000 \<notin> about_to_be_deleted (snd (unstar_message_inner 0 ex_origin 100 9 ex_stale))
   \<and> map e_bot_message_id
        (starboard_entries (snd (unstar_message_inner 0 ex_origin 100 9 ex_stale))) = [Some 1000]
   \<and> count_starrers (snd (unstar_message_inner 0 ex_origin 100 11 ex_cached)) 1 = 2
   \<and> fst (unstar_message_inner 0 ex_origin 100 11 ex_cached) = Crashed HTTPException
   \<and> remote (snd (unstar_message_inner 0 ex_origin 100 11 ex_cached)) = remote ex_cached"
  by code_simp

subsection \<open>The agreement of count and mirror is kept\<close>

lemma map_upd_e_id:
  "map e_id (map (\<lambda>e. if P e then e\<lparr>e_bot_message_id := b\<rparr> else e) es) = map e_id es"
  by (induction es) auto

lemma map_upd_e_message_id:
  "map e_message_id (map (\<lambda>e. if P e then e\<lparr>e_bot_message_id := b\<rparr> else e) es)
     = map e_message_id es"
  by (induction es) auto



subsection \<open>get_message, get_starboard\<close>









subsection \<open>edit, delete\<close>






subsection \<open>Statements on the entries\<close>






































subsection \<open>unstar\<close>




subsection \<open>Reachable states\<close>







end
